theory Spec2Isabelle
  imports Main "HOL-Library.Sublist"
begin

section \<open>The task store of app.py\<close>

text \<open>
  A task is the dict \<^verbatim>\<open>{"id", "title", "completed", "priority"}\<close> of the source.
  The field \<^verbatim>\<open>id\<close> is called \<open>task_id\<close> here (\<open>id\<close> is the identity function of HOL).
  Ids are Python integers, so \<open>int\<close>. The priority is whatever the form sent:
  \<^verbatim>\<open>update_task\<close> stores \<^verbatim>\<open>request.form.get('priority')\<close>, which is Python's
  \<^verbatim>\<open>None\<close> when the field is absent, hence \<open>string option\<close>.
\<close>

record task =
  task_id :: int
  title :: string
  completed :: bool
  priority :: "string option"

text \<open>
  The two module globals that the handlers read and write: the list \<^verbatim>\<open>tasks\<close> and the
  counter \<^verbatim>\<open>next_task_id\<close>. Every handler takes the store and returns the new one.

  The list holds one dict object per entry: the three literals below and one new dict
  per \<^verbatim>\<open>create_task\<close>; \<^verbatim>\<open>delete_task\<close> builds a new list of the same objects.
  No object occurs twice in the list, so mutating a dict in place is the same as
  replacing that entry of a list of values.
\<close>

record store =
  tasks :: "task list"
  next_task_id :: int

definition init_store :: store where
  "init_store =
     \<lparr>tasks =
        [\<lparr>task_id = 1, title = ''Learn HTMX'', completed = False, priority = Some ''high''\<rparr>,
         \<lparr>task_id = 2, title = ''Build Flask App'', completed = False, priority = Some ''medium''\<rparr>,
         \<lparr>task_id = 3, title = ''Deploy to Production'', completed = False, priority = Some ''low''\<rparr>],
      next_task_id = 4\<rparr>"

text \<open>
  The handlers answer with a body and a status. The two failures are the 400 answer
  (\<open>ValidationError\<close>, "Task title is required") and the 404 answer
  (\<open>NotFoundError\<close>, "Task not found"). A successful answer renders a template from a
  task (or a task list); the model returns that task (or list).
\<close>

datatype error = ValidationError | NotFoundError

fun http_status :: "error \<Rightarrow> nat" where
  "http_status ValidationError = 400"
| "http_status NotFoundError = 404"

text \<open>
  \<^verbatim>\<open>not title\<close> for a form field: true for \<^verbatim>\<open>None\<close> (field absent) and for the
  empty string.
\<close>

fun py_not :: "string option \<Rightarrow> bool" where
  "py_not None = True"
| "py_not (Some s) = (s = [])"

text \<open>
  \<^verbatim>\<open>next((t for t in tasks if t['id'] == task_id), None)\<close>: the first task with
  the id, or \<^verbatim>\<open>None\<close>. The handlers test the result with \<^verbatim>\<open>not task\<close>; a task dict
  always has its four keys, so the test is true for \<^verbatim>\<open>None\<close> only.
\<close>

definition lookup_task :: "int \<Rightarrow> task list \<Rightarrow> task option" where
  "lookup_task tid ts = find (\<lambda>t. task_id t = tid) ts"

text \<open>
  Assigning to a field of the dict found by \<open>lookup_task\<close>: the first entry with that
  id is changed, where it stands.
\<close>

fun modify_first :: "int \<Rightarrow> (task \<Rightarrow> task) \<Rightarrow> task list \<Rightarrow> task list" where
  "modify_first tid f [] = []"
| "modify_first tid f (t # ts) =
     (if task_id t = tid then f t # ts else t # modify_first tid f ts)"

text \<open>\<^verbatim>\<open>get_tasks\<close>: the query argument \<^verbatim>\<open>status\<close> defaults to \<^verbatim>\<open>'all'\<close>.\<close>

definition get_tasks :: "string option \<Rightarrow> store \<Rightarrow> task list" where
  "get_tasks status s =
     (let filter_status = (case status of None \<Rightarrow> ''all'' | Some v \<Rightarrow> v) in
      if filter_status = ''completed'' then filter (\<lambda>t. completed t) (tasks s)
      else if filter_status = ''active'' then filter (\<lambda>t. \<not> completed t) (tasks s)
      else tasks s)"

text \<open>
  \<^verbatim>\<open>create_task\<close>: the form field \<^verbatim>\<open>priority\<close> defaults to \<^verbatim>\<open>'medium'\<close>; the
  field \<^verbatim>\<open>title\<close> has no default. Past the check of the title, \<open>title_field\<close> is
  \<open>Some\<close> of a non-empty string, which \<open>the\<close> reads.
\<close>

definition create_task ::
  "string option \<Rightarrow> string option \<Rightarrow> store \<Rightarrow> (error + task) \<times> store" where
  "create_task title_field priority_field s =
     (let priority_value = (case priority_field of None \<Rightarrow> ''medium'' | Some p \<Rightarrow> p) in
      if py_not title_field then (Inl ValidationError, s)
      else
        let new_task = \<lparr>task_id = next_task_id s, title = the title_field,
                        completed = False, priority = Some priority_value\<rparr>
        in (Inr new_task,
            s\<lparr>tasks := tasks s @ [new_task], next_task_id := next_task_id s + 1\<rparr>))"

text \<open>\<^verbatim>\<open>get_task\<close>: the task with the id, or the 404 answer.\<close>

definition get_task :: "int \<Rightarrow> store \<Rightarrow> error + task" where
  "get_task tid s =
     (case lookup_task tid (tasks s) of
        None \<Rightarrow> Inl NotFoundError
      | Some t \<Rightarrow> Inr t)"

text \<open>\<^verbatim>\<open>toggle_task\<close>: negates the \<^verbatim>\<open>completed\<close> field of the task found.\<close>

definition toggle_task :: "int \<Rightarrow> store \<Rightarrow> (error + task) \<times> store" where
  "toggle_task tid s =
     (case lookup_task tid (tasks s) of
        None \<Rightarrow> (Inl NotFoundError, s)
      | Some t \<Rightarrow>
          (Inr (t\<lparr>completed := \<not> completed t\<rparr>),
           s\<lparr>tasks := modify_first tid (\<lambda>u. u\<lparr>completed := \<not> completed u\<rparr>) (tasks s)\<rparr>))"

text \<open>
  \<^verbatim>\<open>update_task\<close>: the task is looked up first, the title is checked second. The
  priority field has no default here.
\<close>

definition update_task ::
  "int \<Rightarrow> string option \<Rightarrow> string option \<Rightarrow> store \<Rightarrow> (error + task) \<times> store" where
  "update_task tid title_field priority_field s =
     (case lookup_task tid (tasks s) of
        None \<Rightarrow> (Inl NotFoundError, s)
      | Some t \<Rightarrow>
          if py_not title_field then (Inl ValidationError, s)
          else
            (Inr (t\<lparr>title := the title_field, priority := priority_field\<rparr>),
             s\<lparr>tasks := modify_first tid
                  (\<lambda>u. u\<lparr>title := the title_field, priority := priority_field\<rparr>) (tasks s)\<rparr>))"

text \<open>\<^verbatim>\<open>delete_task\<close>: always answers \<^verbatim>\<open>('', 200)\<close>.\<close>

definition delete_task :: "int \<Rightarrow> store \<Rightarrow> (error + unit) \<times> store" where
  "delete_task tid s =
     (Inr (), s\<lparr>tasks := filter (\<lambda>t. task_id t \<noteq> tid) (tasks s)\<rparr>)"

subsection \<open>Sequences of requests\<close>

text \<open>
  One value per handler that touches the store, with the arguments the routing layer
  passes: the id of the URL and the form or query fields (absent fields are \<open>None\<close>).
\<close>

datatype request =
    GetTasks "string option"
  | Create "string option" "string option"
  | GetTask int
  | Toggle int
  | Update int "string option" "string option"
  | Delete int

fun step :: "request \<Rightarrow> store \<Rightarrow> store" where
  "step (GetTasks status) s = s"
| "step (Create title_field priority_field) s = snd (create_task title_field priority_field s)"
| "step (GetTask tid) s = s"
| "step (Toggle tid) s = snd (toggle_task tid s)"
| "step (Update tid title_field priority_field) s = snd (update_task tid title_field priority_field s)"
| "step (Delete tid) s = snd (delete_task tid s)"

fun run :: "request list \<Rightarrow> store \<Rightarrow> store" where
  "run [] s = s"
| "run (r # rs) s = run rs (step r s)"




definition titles_nonempty :: "task list \<Rightarrow> bool" where
  "titles_nonempty ts \<longleftrightarrow> (\<forall>t \<in> set ts. title t \<noteq> [])"

section \<open>The event stream of app.py\<close>

text \<open>
  \<^verbatim>\<open>random.randint(a, b)\<close> is a library call: it returns some integer \<open>N\<close> with
  \<open>a \<le> N \<le> b\<close> and advances the state of the random number generator. The
  generator is a parameter here: \<open>draw\<close> takes its state and returns a raw natural
  number and the next state, and \<open>randint\<close> brings the raw number into the range.
  Nothing is assumed of \<open>draw\<close>.
\<close>

definition randint :: "('g \<Rightarrow> nat \<times> 'g) \<Rightarrow> int \<Rightarrow> int \<Rightarrow> 'g \<Rightarrow> int \<times> 'g" where
  "randint draw a b g = (case draw g of (r, g') \<Rightarrow> (a + int (r mod nat (b - a + 1)), g'))"

text \<open>
  \<^verbatim>\<open>str\<close> on an integer, as the f-string and \<^verbatim>\<open>json.dumps\<close> print it: decimal digits,
  a minus sign for a negative number. \<open>digit_char\<close> is only called with a number
  below 10.
\<close>

definition digit_char :: "nat \<Rightarrow> char" where
  "digit_char n = ''0123456789'' ! n"

fun str_nat :: "nat \<Rightarrow> string" where
  "str_nat n = (if n < 10 then [digit_char n] else str_nat (n div 10) @ [digit_char (n mod 10)])"

declare str_nat.simps [simp del]

definition str_int :: "int \<Rightarrow> string" where
  "str_int i = (if i < 0 then ''-'' @ str_nat (nat (- i)) else str_nat (nat i))"

text \<open>
  The dict \<^verbatim>\<open>data\<close> of one event. The key \<^verbatim>\<open>value\<close> is the field \<open>data_value\<close>.
\<close>

record sse_data =
  count :: int
  message :: string
  data_value :: int

text \<open>
  \<^verbatim>\<open>json.dumps(data)\<close> for this dict: the keys in the order of the literal, separated
  by a comma and a space, a colon and a space after each key. The message is
  \<^verbatim>\<open>Update\<close>, a space and digits, which \<^verbatim>\<open>json.dumps\<close> prints unescaped.
\<close>

definition json_dumps :: "sse_data \<Rightarrow> string" where
  "json_dumps d =
     ''{\"count\": '' @ str_int (count d) @ '', \"message\": \"'' @ message d @
     ''\", \"value\": '' @ str_int (data_value d) @ ''}''"

text \<open>
  The string of one \<^verbatim>\<open>yield\<close>: \<^verbatim>\<open>data:\<close>, a space, the dict and two newlines.
\<close>

definition sse_frame :: "sse_data \<Rightarrow> string" where
  "sse_frame d = ''data: '' @ json_dumps d @ [CHR 0x0A, CHR 0x0A]"

text \<open>
  The body of \<^verbatim>\<open>generate\<close>: one iteration per element of \<^verbatim>\<open>range(10)\<close>, one call
  of \<^verbatim>\<open>random.randint(1, 100)\<close> per iteration. \<^verbatim>\<open>time.sleep(1)\<close> changes no value
  and is left out. The result is the list of the dicts of the events in the order of
  their \<^verbatim>\<open>yield\<close>; after the last one the generator returns.
\<close>

fun generate_loop :: "('g \<Rightarrow> nat \<times> 'g) \<Rightarrow> int list \<Rightarrow> 'g \<Rightarrow> sse_data list" where
  "generate_loop draw [] g = []"
| "generate_loop draw (i # is) g =
     (case randint draw 1 100 g of
        (v, g') \<Rightarrow>
          \<lparr>count = i + 1, message = ''Update '' @ str_int (i + 1), data_value = v\<rparr>
            # generate_loop draw is g')"

text \<open>
  \<^verbatim>\<open>range(10)\<close> is the list \<open>[0..9]\<close>. Every call of \<^verbatim>\<open>sse_stream\<close> makes a new
  generator, which starts the loop at its first element.
\<close>

definition generate_data :: "('g \<Rightarrow> nat \<times> 'g) \<Rightarrow> 'g \<Rightarrow> sse_data list" where
  "generate_data draw g = generate_loop draw [0..9] g"

text \<open>
  What the generator yields: the strings sent to the client.
\<close>

definition generate :: "('g \<Rightarrow> nat \<times> 'g) \<Rightarrow> 'g \<Rightarrow> string list" where
  "generate draw g = map sse_frame (generate_data draw g)"

text \<open>
  Reading a string of decimal digits as a number, as the client of the stream reads the
  number after \<^verbatim>\<open>"value":\<close>. It is used to say that the digits sent are those of the
  value drawn.
\<close>

definition digit_value :: "char \<Rightarrow> nat" where
  "digit_value c = of_char c - 48"

definition read_decimal :: "string \<Rightarrow> nat" where
  "read_decimal s = foldl (\<lambda>a c. 10 * a + digit_value c) 0 s"

section \<open>Lemmas on the task store\<close>

subsection \<open>Finding and changing the first task with an id\<close>

lemma lookup_task_None: "lookup_task tid ts = None \<longleftrightarrow> tid \<notin> task_id ` set ts"
  by (auto simp: lookup_task_def find_None_iff)

lemma lookup_task_split:
  "tid \<notin> task_id ` set pre \<Longrightarrow> task_id t = tid \<Longrightarrow> lookup_task tid (pre @ t # post) = Some t"
  by (induction pre) (auto simp: lookup_task_def)

lemma modify_first_split:
  "tid \<notin> task_id ` set pre \<Longrightarrow> task_id t = tid \<Longrightarrow>
   modify_first tid f (pre @ t # post) = pre @ f t # post"
  by (induction pre) auto

lemma modify_first_twice:
  "(\<And>u. task_id (f u) = task_id u) \<Longrightarrow> (\<And>u. g (f u) = u) \<Longrightarrow>
   modify_first tid g (modify_first tid f ts) = ts"
  by (induction ts) auto

lemma lookup_task_modify_first:
  "(\<And>u. task_id (f u) = task_id u) \<Longrightarrow>
   lookup_task tid (modify_first tid f ts) = map_option f (lookup_task tid ts)"
  by (induction ts) (auto simp: lookup_task_def)



text \<open>
  A store that holds a task with the id splits at the first such task.
\<close>

lemma present_split:
  "tid \<in> task_id ` set ts \<Longrightarrow>
   \<exists>pre t post. ts = pre @ t # post \<and> tid \<notin> task_id ` set pre \<and> task_id t = tid"
proof (induction ts)
  case Nil
  then show ?case by simp
next
  case (Cons a ts)
  show ?case
  proof (cases "task_id a = tid")
    case True
    then have "a # ts = [] @ a # ts \<and> tid \<notin> task_id ` set [] \<and> task_id a = tid" by simp
    then show ?thesis by blast
  next
    case False
    with Cons obtain pre t post where "ts = pre @ t # post" "tid \<notin> task_id ` set pre" "task_id t = tid"
      by auto
    with False have "a # ts = (a # pre) @ t # post \<and> tid \<notin> task_id ` set (a # pre) \<and> task_id t = tid"
      by simp
    then show ?thesis by blast
  qed
qed

subsection \<open>The id counter\<close>




lemma next_task_id_step: "next_task_id s \<le> next_task_id (step r s)"
  by (cases r) (auto simp: create_task_def toggle_task_def update_task_def delete_task_def Let_def
      split: option.splits)

lemma next_task_id_run: "next_task_id s \<le> next_task_id (run rs s)"
proof (induction rs arbitrary: s)
  case Nil
  show ?case by simp
next
  case (Cons r rs)
  have "next_task_id s \<le> next_task_id (step r s)" by (rule next_task_id_step)
  also have "\<dots> \<le> next_task_id (run rs (step r s))" by (rule Cons.IH)
  finally show ?case by simp
qed






subsection \<open>Ids in the list stay different and below the counter\<close>








subsection \<open>Titles in the list stay non-empty\<close>

lemma titles_nonempty_modify_first:
  "titles_nonempty ts \<Longrightarrow> (\<And>u. title (f u) \<noteq> []) \<Longrightarrow> titles_nonempty (modify_first tid f ts)"
  by (induction ts) (auto simp: titles_nonempty_def)

lemma titles_nonempty_modify_first_same:
  "titles_nonempty ts \<Longrightarrow> (\<And>u. title (f u) = title u) \<Longrightarrow> titles_nonempty (modify_first tid f ts)"
  by (induction ts) (auto simp: titles_nonempty_def)

lemma titles_nonempty_step: "titles_nonempty (tasks s) \<Longrightarrow> titles_nonempty (tasks (step r s))"
proof (cases r)
  case (Create title_field priority_field)
  assume "titles_nonempty (tasks s)"
  with Create show ?thesis
    by (cases title_field) (auto simp: create_task_def Let_def titles_nonempty_def)
next
  case (Toggle tid)
  assume "titles_nonempty (tasks s)"
  then have "titles_nonempty (modify_first tid (\<lambda>u. u\<lparr>completed := \<not> completed u\<rparr>) (tasks s))"
    by (rule titles_nonempty_modify_first_same) simp
  with \<open>titles_nonempty (tasks s)\<close> Toggle show ?thesis
    by (simp add: toggle_task_def split: option.splits)
next
  case (Update tid title_field priority_field)
  assume a: "titles_nonempty (tasks s)"
  show ?thesis
  proof (cases "py_not title_field")
    case True
    with a Update show ?thesis by (simp add: update_task_def split: option.splits)
  next
    case False
    then have "\<And>u::task. title (u\<lparr>title := the title_field, priority := priority_field\<rparr>) \<noteq> []"
      by (cases title_field) simp_all
    with a have "titles_nonempty (modify_first tid
        (\<lambda>u. u\<lparr>title := the title_field, priority := priority_field\<rparr>) (tasks s))"
      by (rule titles_nonempty_modify_first)
    with a Update show ?thesis by (simp add: update_task_def split: option.splits)
  qed
next
  case (Delete tid)
  assume "titles_nonempty (tasks s)"
  with Delete show ?thesis by (simp add: delete_task_def titles_nonempty_def)
qed simp_all

lemma titles_nonempty_run: "titles_nonempty (tasks s) \<Longrightarrow> titles_nonempty (tasks (run rs s))"
  by (induction rs arbitrary: s) (simp_all add: titles_nonempty_step)

lemma titles_nonempty_init: "titles_nonempty (tasks init_store)"
  by (simp add: titles_nonempty_def init_store_def)

section \<open>Lemmas on the event stream\<close>

lemma range_10: "[0..9] = [0, 1, 2, 3, 4, 5, 6, 7, 8, (9::int)]"
  by (simp add: upto_rec1)

lemma randint_bounds: "a \<le> b \<Longrightarrow> a \<le> fst (randint draw a b g) \<and> fst (randint draw a b g) \<le> b"
proof -
  assume "a \<le> b"
  then have p: "0 < nat (b - a + 1)" by simp
  have "fst (draw g) mod nat (b - a + 1) < nat (b - a + 1)"
    using p by (rule mod_less_divisor)
  then have "int (fst (draw g) mod nat (b - a + 1)) < b - a + 1" by linarith
  then show ?thesis by (cases "draw g") (simp add: randint_def)
qed

text \<open>
  Every integer of the range is a possible result of \<open>randint\<close>.
\<close>

lemma randint_onto: "a \<le> v \<Longrightarrow> v \<le> b \<Longrightarrow> fst (randint (\<lambda>g. (nat (v - a), g)) a b g) = v"
  by (simp add: randint_def)

lemma length_generate_loop: "length (generate_loop draw is g) = length is"
  by (induction "is" arbitrary: g) (auto split: prod.splits)

lemma count_generate_loop: "map count (generate_loop draw is g) = map (\<lambda>i. i + 1) is"
  by (induction "is" arbitrary: g) (auto split: prod.splits)

lemma value_generate_loop:
  "d \<in> set (generate_loop draw is g) \<Longrightarrow> 1 \<le> data_value d \<and> data_value d \<le> 100"
proof (induction "is" arbitrary: g)
  case Nil
  then show ?case by simp
next
  case (Cons i "is")
  obtain v g' where r: "randint draw 1 100 g = (v, g')" by (cases "randint draw 1 100 g")
  have "1 \<le> fst (randint draw 1 100 g) \<and> fst (randint draw 1 100 g) \<le> 100"
    by (rule randint_bounds) simp
  with r have v: "1 \<le> v \<and> v \<le> 100" by simp
  from Cons.prems r have "d = \<lparr>count = i + 1, message = ''Update '' @ str_int (i + 1), data_value = v\<rparr>
      \<or> d \<in> set (generate_loop draw is g')" by simp
  then show ?case
  proof
    assume "d = \<lparr>count = i + 1, message = ''Update '' @ str_int (i + 1), data_value = v\<rparr>"
    with v show ?thesis by simp
  next
    assume "d \<in> set (generate_loop draw is g')"
    then show ?thesis by (rule Cons.IH)
  qed
qed

text \<open>The strings yielded, written out; the digits of a number read back give the number.\<close>

lemma frames_generate_loop:
  "map sse_frame (generate_loop draw is g) =
   map (\<lambda>(c, d). ''data: {\"count\": '' @ c @ '', \"message\": \"Update '' @ c @
                  ''\", \"value\": '' @ str_int (data_value d) @ ''}'' @ [CHR 0x0A, CHR 0x0A])
     (zip (map (\<lambda>i. str_int (i + 1)) is) (generate_loop draw is g))"
  by (induction "is" arbitrary: g) (auto simp: sse_frame_def json_dumps_def split: prod.splits)

lemma count_strings: "map (\<lambda>i. str_int (i + 1)) [0, 1, 2, 3, 4, 5, 6, 7, 8, (9::int)] =
   map (\<lambda>c. [c]) ''123456789'' @ [''10'']"
  by (simp add: str_int_def str_nat.simps digit_char_def)

lemma digit_value_digit_char: "n < 10 \<Longrightarrow> digit_value (digit_char n) = n"
proof -
  have "list_all (\<lambda>k. digit_value (digit_char k) = k) [0..<10]"
    by code_simp
  then have "\<forall>k \<in> set [0..<10]. digit_value (digit_char k) = k"
    by (simp only: list_all_iff)
  moreover assume "n < 10"
  ultimately show ?thesis by simp
qed

lemma read_decimal_snoc: "read_decimal (s @ [c]) = 10 * read_decimal s + digit_value c"
  by (simp add: read_decimal_def)

lemma read_decimal_str_nat: "read_decimal (str_nat n) = n"
proof (induction n rule: str_nat.induct)
  case (1 n)
  show ?case
  proof (cases "n < 10")
    case True
    then have "str_nat n = [digit_char n]" by (simp add: str_nat.simps)
    with True show ?thesis
      using read_decimal_snoc [of "[]" "digit_char n"]
      by (simp add: digit_value_digit_char read_decimal_def)
  next
    case False
    then have s: "str_nat n = str_nat (n div 10) @ [digit_char (n mod 10)]"
      by (subst str_nat.simps) simp
    have "read_decimal (str_nat n) = 10 * read_decimal (str_nat (n div 10)) + digit_value (digit_char (n mod 10))"
      unfolding s by (rule read_decimal_snoc)
    also have "\<dots> = 10 * (n div 10) + n mod 10"
      using False "1.IH" by (simp add: digit_value_digit_char)
    also have "\<dots> = n" by simp
    finally show ?thesis .
  qed
qed

lemma read_decimal_str_int: "0 \<le> i \<Longrightarrow> int (read_decimal (str_int i)) = i"
  by (simp add: str_int_def read_decimal_str_nat)

section \<open>Properties of the event stream\<close>

text \<open>
  C1. Whatever the random number generator does, one call of the stream yields exactly
  ten strings, each one event: \<^verbatim>\<open>data:\<close>, the dict with \<^verbatim>\<open>count\<close>,
  \<^verbatim>\<open>message\<close> and \<^verbatim>\<open>value\<close>, and two newlines. The counts sent are 1, 2, ..., 10 in
  this order (the nine one-digit strings, then \<^verbatim>\<open>10\<close>), as are the \<^verbatim>\<open>count\<close> fields
  of the dicts; every \<^verbatim>\<open>value\<close> is an integer
  from 1 to 100, and the digits sent for it read back as that integer. The list ends
  after the tenth event. The result does not depend on any earlier call: every call
  starts at count 1.
\<close>

theorem sse_stream_ten_events:
  "length (generate draw g) = 10 \<and>
   generate draw g =
     map (\<lambda>(c, d). ''data: {\"count\": '' @ c @ '', \"message\": \"Update '' @ c @
                    ''\", \"value\": '' @ str_int (data_value d) @ ''}'' @ [CHR 0x0A, CHR 0x0A])
       (zip (map (\<lambda>c. [c]) ''123456789'' @ [''10''])
            (generate_data draw g)) \<and>
   map count (generate_data draw g) = [1, 2, 3, 4, 5, 6, 7, 8, 9, 10] \<and>
   (\<forall>d \<in> set (generate_data draw g).
      1 \<le> data_value d \<and> data_value d \<le> 100 \<and>
      int (read_decimal (str_int (data_value d))) = data_value d)"
proof -
  have "length (generate draw g) = 10"
    by (simp add: generate_def generate_data_def length_generate_loop)
  moreover have "generate draw g =
     map (\<lambda>(c, d). ''data: {\"count\": '' @ c @ '', \"message\": \"Update '' @ c @
                    ''\", \"value\": '' @ str_int (data_value d) @ ''}'' @ [CHR 0x0A, CHR 0x0A])
       (zip (map (\<lambda>c. [c]) ''123456789'' @ [''10''])
            (generate_data draw g))"
    unfolding generate_def generate_data_def frames_generate_loop range_10 count_strings ..
  moreover have "map count (generate_data draw g) = [1, 2, 3, 4, 5, 6, 7, 8, 9, 10]"
    unfolding generate_data_def count_generate_loop by (simp add: range_10)
  moreover have "\<forall>d \<in> set (generate_data draw g).
      1 \<le> data_value d \<and> data_value d \<le> 100 \<and>
      int (read_decimal (str_int (data_value d))) = data_value d"
  proof
    fix d assume "d \<in> set (generate_data draw g)"
    then have b: "1 \<le> data_value d \<and> data_value d \<le> 100"
      unfolding generate_data_def by (rule value_generate_loop)
    then have "int (read_decimal (str_int (data_value d))) = data_value d"
      by (simp add: read_decimal_str_int)
    with b show "1 \<le> data_value d \<and> data_value d \<le> 100 \<and>
      int (read_decimal (str_int (data_value d))) = data_value d" by simp
  qed
  ultimately show ?thesis by blast
qed

text \<open>
  The stream with a generator that counts its calls: the raw numbers are 99, 196, 293, ...
\<close>

theorem sse_stream_ten_events_witness:
  "length (generate (\<lambda>n::nat. (97 * n + 99, n + 1)) 0) = 10 \<and>
   map count (generate_data (\<lambda>n::nat. (97 * n + 99, n + 1)) 0) = [1, 2, 3, 4, 5, 6, 7, 8, 9, 10] \<and>
   map data_value (generate_data (\<lambda>n::nat. (97 * n + 99, n + 1)) 0) =
     [100, 97, 94, 91, 88, 85, 82, 79, 76, 73] \<and>
   \<lparr>count = 1, message = ''Update 1'', data_value = 100\<rparr>
     \<in> set (generate_data (\<lambda>n::nat. (97 * n + 99, n + 1)) 0) \<and>
   generate (\<lambda>n::nat. (97 * n + 99, n + 1)) 0 ! 0 =
     ''data: {\"count\": 1, \"message\": \"Update 1\", \"value\": 100}'' @ [CHR 0x0A, CHR 0x0A] \<and>
   generate (\<lambda>n::nat. (97 * n + 99, n + 1)) 0 ! 9 =
     ''data: {\"count\": 10, \"message\": \"Update 10\", \"value\": 73}'' @ [CHR 0x0A, CHR 0x0A]"
proof -
  have d: "generate_data (\<lambda>n::nat. (97 * n + 99, n + 1)) 0 =
    [\<lparr>count = 1, message = ''Update 1'', data_value = 100\<rparr>,
     \<lparr>count = 2, message = ''Update 2'', data_value = 97\<rparr>,
     \<lparr>count = 3, message = ''Update 3'', data_value = 94\<rparr>,
     \<lparr>count = 4, message = ''Update 4'', data_value = 91\<rparr>,
     \<lparr>count = 5, message = ''Update 5'', data_value = 88\<rparr>,
     \<lparr>count = 6, message = ''Update 6'', data_value = 85\<rparr>,
     \<lparr>count = 7, message = ''Update 7'', data_value = 82\<rparr>,
     \<lparr>count = 8, message = ''Update 8'', data_value = 79\<rparr>,
     \<lparr>count = 9, message = ''Update 9'', data_value = 76\<rparr>,
     \<lparr>count = 10, message = ''Update 10'', data_value = 73\<rparr>]"
    by (simp add: generate_data_def range_10 randint_def str_int_def str_nat.simps digit_char_def)
  have v: "str_int 100 = ''100''" "str_int 73 = ''73''"
    by (simp_all add: str_int_def str_nat.simps digit_char_def)
  from sse_stream_ten_events [of "\<lambda>n::nat. (97 * n + 99, n + 1)" "0::nat"]
  show ?thesis unfolding d by (simp add: v)
qed

section \<open>Properties of the task store\<close>



text \<open>
  C3, as the claim has it: an empty title gives the validation error for every id.
  On the initial store, id 99 with an empty title gives the not-found answer instead:
  the handler looks the task up before it checks the title.
\<close>

theorem update_task_counterexample:
  "fst (update_task 99 (Some []) (Some ''low'') init_store) = Inl NotFoundError \<and>
   fst (update_task 99 (Some []) (Some ''low'') init_store) \<noteq> Inl ValidationError"
  by (simp add: update_task_def lookup_task_def init_store_def)

text \<open>
  C3, amended. \<^verbatim>\<open>update_task\<close> answers not-found when no task has the id, whatever
  the title; when a task has the id and the title is empty or absent it answers with the
  validation error; in both cases the store is unchanged. Otherwise the first task with
  the id gets the new title and the new priority where it stands: its id and its
  \<^verbatim>\<open>completed\<close> flag, the tasks before and after it, their order and the id counter
  are unchanged, and the answer is the changed task.
\<close>

theorem update_task_cases:
  "(tid \<notin> task_id ` set (tasks s) \<longrightarrow>
      update_task tid title_field priority_field s = (Inl NotFoundError, s)) \<and>
   (tid \<in> task_id ` set (tasks s) \<and> (title_field = None \<or> title_field = Some []) \<longrightarrow>
      update_task tid title_field priority_field s = (Inl ValidationError, s)) \<and>
   (tasks s = pre @ t # post \<and> tid \<notin> task_id ` set pre \<and> task_id t = tid \<and>
    title_field = Some (c # cs) \<longrightarrow>
      update_task tid title_field priority_field s =
        (Inr \<lparr>task_id = task_id t, title = c # cs, completed = completed t,
              priority = priority_field\<rparr>,
         s\<lparr>tasks := pre @ \<lparr>task_id = task_id t, title = c # cs, completed = completed t,
                            priority = priority_field\<rparr> # post\<rparr>))"
proof (intro conjI impI)
  assume "tid \<notin> task_id ` set (tasks s)"
  then have "lookup_task tid (tasks s) = None" by (simp add: lookup_task_None)
  then show "update_task tid title_field priority_field s = (Inl NotFoundError, s)"
    by (simp add: update_task_def)
next
  assume a: "tid \<in> task_id ` set (tasks s) \<and> (title_field = None \<or> title_field = Some [])"
  then have "lookup_task tid (tasks s) \<noteq> None" by (simp add: lookup_task_None)
  then obtain u where "lookup_task tid (tasks s) = Some u" by blast
  moreover from a have "py_not title_field" by auto
  ultimately show "update_task tid title_field priority_field s = (Inl ValidationError, s)"
    by (simp add: update_task_def)
next
  assume a: "tasks s = pre @ t # post \<and> tid \<notin> task_id ` set pre \<and> task_id t = tid \<and>
    title_field = Some (c # cs)"
  let ?f = "\<lambda>u::task. u\<lparr>title := the title_field, priority := priority_field\<rparr>"
  from a have l: "lookup_task tid (tasks s) = Some t" by (simp add: lookup_task_split)
  from a have m: "modify_first tid ?f (tasks s) = pre @ ?f t # post"
    by (simp add: modify_first_split)
  from a have f: "?f t = \<lparr>task_id = task_id t, title = c # cs, completed = completed t,
              priority = priority_field\<rparr>" by simp
  from a have "\<not> py_not title_field" by simp
  with l m f show "update_task tid title_field priority_field s =
        (Inr \<lparr>task_id = task_id t, title = c # cs, completed = completed t,
              priority = priority_field\<rparr>,
         s\<lparr>tasks := pre @ \<lparr>task_id = task_id t, title = c # cs, completed = completed t,
                            priority = priority_field\<rparr> # post\<rparr>)"
    by (simp add: update_task_def)
qed

theorem update_task_cases_witness:
  "update_task 99 (Some ''Plan'') None init_store = (Inl NotFoundError, init_store) \<and>
   update_task 2 (Some []) (Some ''low'') init_store = (Inl ValidationError, init_store) \<and>
   update_task 2 (Some ''Build API'') (Some ''high'') init_store =
     (Inr \<lparr>task_id = 2, title = ''Build API'', completed = False, priority = Some ''high''\<rparr>,
      \<lparr>tasks =
         [\<lparr>task_id = 1, title = ''Learn HTMX'', completed = False, priority = Some ''high''\<rparr>,
          \<lparr>task_id = 2, title = ''Build API'', completed = False, priority = Some ''high''\<rparr>,
          \<lparr>task_id = 3, title = ''Deploy to Production'', completed = False, priority = Some ''low''\<rparr>],
       next_task_id = 4\<rparr>)"
proof -
  have a: "update_task 99 (Some ''Plan'') None init_store = (Inl NotFoundError, init_store)"
    using update_task_cases [of 99 init_store "Some ''Plan''" None]
    by (simp add: init_store_def)
  have b: "update_task 2 (Some []) (Some ''low'') init_store = (Inl ValidationError, init_store)"
    using update_task_cases [of 2 init_store "Some []" "Some ''low''"]
    by (simp add: init_store_def)
  have c: "update_task 2 (Some ''Build API'') (Some ''high'') init_store =
     (Inr \<lparr>task_id = 2, title = ''Build API'', completed = False, priority = Some ''high''\<rparr>,
      \<lparr>tasks =
         [\<lparr>task_id = 1, title = ''Learn HTMX'', completed = False, priority = Some ''high''\<rparr>,
          \<lparr>task_id = 2, title = ''Build API'', completed = False, priority = Some ''high''\<rparr>,
          \<lparr>task_id = 3, title = ''Deploy to Production'', completed = False, priority = Some ''low''\<rparr>],
       next_task_id = 4\<rparr>)"
    using update_task_cases [of 2 init_store "Some ''Build API''" "Some ''high''"
        "[\<lparr>task_id = 1, title = ''Learn HTMX'', completed = False, priority = Some ''high''\<rparr>]"
        "\<lparr>task_id = 2, title = ''Build Flask App'', completed = False, priority = Some ''medium''\<rparr>"
        "[\<lparr>task_id = 3, title = ''Deploy to Production'', completed = False, priority = Some ''low''\<rparr>]"
        "CHR ''B''" "''uild API''"]
    by (simp add: init_store_def)
  from a b c show ?thesis by simp
qed

text \<open>
  C4, as the claim has it: on a store without tasks the created task has id 1. The
  store without tasks that the program reaches by deleting the three initial tasks has
  its counter at 4, and the created task has id 4.
\<close>

theorem create_on_emptied_store_counterexample:
  "tasks (run [Delete 1, Delete 2, Delete 3] init_store) = [] \<and>
   tasks (snd (create_task (Some ''Write spec'') (Some ''high'')
                (run [Delete 1, Delete 2, Delete 3] init_store))) =
     [\<lparr>task_id = 4, title = ''Write spec'', completed = False, priority = Some ''high''\<rparr>] \<and>
   map task_id (tasks (snd (create_task (Some ''Write spec'') (Some ''high'')
                (run [Delete 1, Delete 2, Delete 3] init_store)))) \<noteq> [1]"
  by (simp add: init_store_def delete_task_def create_task_def Let_def)

text \<open>
  C4, amended. On a store without tasks, creating "Write spec" with priority "high"
  leaves exactly one task in the store; it is not completed, has priority "high" and
  its id is the value of the id counter, which then advances by one. In every store
  the program reaches from its initial store the counter is at least 4.
\<close>

theorem create_on_empty_store:
  "(tasks s = [] \<longrightarrow>
      create_task (Some ''Write spec'') (Some ''high'') s =
        (Inr \<lparr>task_id = next_task_id s, title = ''Write spec'', completed = False,
              priority = Some ''high''\<rparr>,
         \<lparr>tasks = [\<lparr>task_id = next_task_id s, title = ''Write spec'', completed = False,
                     priority = Some ''high''\<rparr>],
          next_task_id = next_task_id s + 1\<rparr>)) \<and>
   4 \<le> next_task_id (run rs init_store)"
proof -
  have "4 \<le> next_task_id (run rs init_store)"
    using next_task_id_run [of init_store rs] by (simp add: init_store_def)
  then show ?thesis by (simp add: create_task_def Let_def)
qed

theorem create_on_empty_store_witness:
  "tasks (run [Delete 3, Delete 1, Delete 2] init_store) = [] \<and>
   create_task (Some ''Write spec'') (Some ''high'') (run [Delete 3, Delete 1, Delete 2] init_store) =
     (Inr \<lparr>task_id = 4, title = ''Write spec'', completed = False, priority = Some ''high''\<rparr>,
      \<lparr>tasks = [\<lparr>task_id = 4, title = ''Write spec'', completed = False, priority = Some ''high''\<rparr>],
       next_task_id = 5\<rparr>)"
proof -
  have e: "tasks (run [Delete 3, Delete 1, Delete 2] init_store) = []"
    by (simp add: init_store_def delete_task_def)
  have n: "next_task_id (run [Delete 3, Delete 1, Delete 2] init_store) = 4"
    by (simp add: init_store_def delete_task_def)
  from e n create_on_empty_store [of "run [Delete 3, Delete 1, Delete 2] init_store" "[]"]
  show ?thesis by simp
qed

text \<open>
  C5, as the claim has it: every stored priority is one of "low", "medium", "high".
  \<^verbatim>\<open>create_task\<close> stores the priority "urgent" as it is sent.
\<close>

theorem stored_priority_counterexample:
  "map priority (tasks (run [Create (Some ''Ship it'') (Some ''urgent'')] init_store)) =
     [Some ''high'', Some ''medium'', Some ''low'', Some ''urgent''] \<and>
   Some ''urgent'' \<notin> {Some ''low'', Some ''medium'', Some ''high''}"
  by (simp add: init_store_def create_task_def Let_def)

text \<open>
  C5, amended. Every task in a store reached from the initial store has a non-empty
  title: \<^verbatim>\<open>create_task\<close> and \<^verbatim>\<open>update_task\<close> answer an empty or absent title with an
  error and leave the store unchanged. With a non-empty title \<^verbatim>\<open>create_task\<close> appends
  to the store a task whose priority is "medium" when no priority is sent, and
  otherwise the priority as it is sent, whatever string it is; the priorities of the
  tasks already in the store are unchanged.
\<close>

theorem stored_titles_nonempty:
  "(\<forall>t \<in> set (tasks (run rs init_store)). title t \<noteq> []) \<and>
   (py_not title_field \<longrightarrow>
      isl (fst (create_task title_field priority_field s)) \<and>
      snd (create_task title_field priority_field s) = s \<and>
      isl (fst (update_task tid title_field priority_field s)) \<and>
      snd (update_task tid title_field priority_field s) = s) \<and>
   create_task (Some (c # cs)) None s =
     (Inr \<lparr>task_id = next_task_id s, title = c # cs, completed = False,
           priority = Some ''medium''\<rparr>,
      s\<lparr>tasks := tasks s @ [\<lparr>task_id = next_task_id s, title = c # cs, completed = False,
                               priority = Some ''medium''\<rparr>],
        next_task_id := next_task_id s + 1\<rparr>) \<and>
   create_task (Some (c # cs)) (Some p) s =
     (Inr \<lparr>task_id = next_task_id s, title = c # cs, completed = False, priority = Some p\<rparr>,
      s\<lparr>tasks := tasks s @ [\<lparr>task_id = next_task_id s, title = c # cs, completed = False,
                               priority = Some p\<rparr>],
        next_task_id := next_task_id s + 1\<rparr>) \<and>
   map priority (tasks (snd (create_task (Some (c # cs)) None s))) =
     map priority (tasks s) @ [Some ''medium''] \<and>
   map priority (tasks (snd (create_task (Some (c # cs)) (Some p) s))) =
     map priority (tasks s) @ [Some p]"
proof -
  have "titles_nonempty (tasks (run rs init_store))"
    using titles_nonempty_init by (rule titles_nonempty_run)
  then have "\<forall>t \<in> set (tasks (run rs init_store)). title t \<noteq> []"
    by (simp add: titles_nonempty_def)
  moreover have "py_not title_field \<longrightarrow>
      isl (fst (create_task title_field priority_field s)) \<and>
      snd (create_task title_field priority_field s) = s \<and>
      isl (fst (update_task tid title_field priority_field s)) \<and>
      snd (update_task tid title_field priority_field s) = s"
    by (simp add: create_task_def Let_def update_task_def split: option.splits)
  moreover have "create_task (Some (c # cs)) None s =
     (Inr \<lparr>task_id = next_task_id s, title = c # cs, completed = False,
           priority = Some ''medium''\<rparr>,
      s\<lparr>tasks := tasks s @ [\<lparr>task_id = next_task_id s, title = c # cs, completed = False,
                               priority = Some ''medium''\<rparr>],
        next_task_id := next_task_id s + 1\<rparr>)"
    by (simp add: create_task_def Let_def)
  moreover have "create_task (Some (c # cs)) (Some p) s =
     (Inr \<lparr>task_id = next_task_id s, title = c # cs, completed = False, priority = Some p\<rparr>,
      s\<lparr>tasks := tasks s @ [\<lparr>task_id = next_task_id s, title = c # cs, completed = False,
                               priority = Some p\<rparr>],
        next_task_id := next_task_id s + 1\<rparr>)"
    by (simp add: create_task_def Let_def)
  moreover have "map priority (tasks (snd (create_task (Some (c # cs)) None s))) =
     map priority (tasks s) @ [Some ''medium'']"
    by (simp add: create_task_def Let_def)
  moreover have "map priority (tasks (snd (create_task (Some (c # cs)) (Some p) s))) =
     map priority (tasks s) @ [Some p]"
    by (simp add: create_task_def Let_def)
  ultimately show ?thesis by blast
qed

theorem stored_titles_nonempty_witness:
  "map title (tasks (run [Create (Some ''Ship it'') (Some ''urgent''), Update 2 (Some []) None,
                          Update 1 (Some ''Learn'') None, Create None None] init_store)) =
     [''Learn'', ''Build Flask App'', ''Deploy to Production'', ''Ship it''] \<and>
   py_not (Some []) \<and>
   create_task (Some []) (Some ''low'') init_store = (Inl ValidationError, init_store) \<and>
   update_task 2 (Some []) (Some ''low'') init_store = (Inl ValidationError, init_store) \<and>
   map priority (tasks (snd (create_task (Some ''Plan'') None init_store))) =
     [Some ''high'', Some ''medium'', Some ''low'', Some ''medium''] \<and>
   map priority (tasks (snd (create_task (Some ''Plan'') (Some ''urgent'') init_store))) =
     [Some ''high'', Some ''medium'', Some ''low'', Some ''urgent'']"
proof -
  have r: "map title (tasks (run [Create (Some ''Ship it'') (Some ''urgent''), Update 2 (Some []) None,
                          Update 1 (Some ''Learn'') None, Create None None] init_store)) =
     [''Learn'', ''Build Flask App'', ''Deploy to Production'', ''Ship it'']"
    by (simp add: init_store_def create_task_def update_task_def lookup_task_def Let_def)
  have c: "create_task (Some []) (Some ''low'') init_store = (Inl ValidationError, init_store)"
    by (simp add: create_task_def)
  have u: "update_task 2 (Some []) (Some ''low'') init_store = (Inl ValidationError, init_store)"
    by (simp add: update_task_def lookup_task_def init_store_def)
  have i: "map priority (tasks init_store) = [Some ''high'', Some ''medium'', Some ''low'']"
    by (simp add: init_store_def)
  from r c u i stored_titles_nonempty [where rs =
      "[Create (Some ''Ship it'') (Some ''urgent''), Update 2 (Some []) None,
        Update 1 (Some ''Learn'') None, Create None None]" and title_field = "Some []"
      and priority_field = "Some ''low''" and s = init_store and tid = 2
      and c = "CHR ''P''" and cs = "''lan''" and p = "''urgent''"]
  show ?thesis by simp
qed

text \<open>
  C6. For every priority argument and every store, \<^verbatim>\<open>create_task\<close> with an empty
  title, and with no title at all, answers with the validation error and leaves the
  store as it was: no task is appended and the id counter is not advanced.
\<close>

theorem create_task_empty_title:
  "create_task (Some []) priority_field s = (Inl ValidationError, s) \<and>
   create_task None priority_field s = (Inl ValidationError, s)"
  by (simp add: create_task_def)

text \<open>
  C7. For every store, the tasks listed for "active" and the tasks listed for
  "completed" are disjoint sets and together they are the tasks listed for "all",
  which are all tasks of the store (as they are when no status is sent). The two
  filtered lists are the completed and the not completed tasks in the order of the
  store, and for every status the answer is a subsequence of the store. The handler
  has no error answer.
\<close>

theorem get_tasks_partition:
  "set (get_tasks (Some ''active'') s) \<inter> set (get_tasks (Some ''completed'') s) = {} \<and>
   set (get_tasks (Some ''active'') s) \<union> set (get_tasks (Some ''completed'') s)
     = set (get_tasks (Some ''all'') s) \<and>
   get_tasks (Some ''all'') s = tasks s \<and>
   get_tasks None s = tasks s \<and>
   get_tasks (Some ''completed'') s = filter completed (tasks s) \<and>
   get_tasks (Some ''active'') s = filter (\<lambda>t. \<not> completed t) (tasks s) \<and>
   subseq (get_tasks status s) (tasks s)"
proof -
  have "subseq (get_tasks status s) (tasks s)"
    by (simp add: get_tasks_def Let_def)
  moreover have "get_tasks (Some ''completed'') s = filter completed (tasks s)"
    by (simp add: get_tasks_def)
  moreover have "get_tasks (Some ''active'') s = filter (\<lambda>t. \<not> completed t) (tasks s)"
    by (simp add: get_tasks_def)
  moreover have "get_tasks (Some ''all'') s = tasks s"
    by (simp add: get_tasks_def)
  moreover have "get_tasks None s = tasks s"
    by (simp add: get_tasks_def)
  ultimately show ?thesis by auto
qed

text \<open>
  C8. When a task has the id, \<^verbatim>\<open>toggle_task\<close> succeeds and flips the flag of the task
  that \<^verbatim>\<open>get_task\<close> finds; a second call answers with that task as it was before the
  two calls and gives back the store as it was. When no task has the id, the answer is
  not-found and the store is unchanged.
\<close>

theorem toggle_task_involution:
  "(tid \<in> task_id ` set (tasks s) \<longrightarrow>
      isl (fst (toggle_task tid s)) = False \<and>
      fst (toggle_task tid (snd (toggle_task tid s))) = get_task tid s \<and>
      isl (get_task tid s) = False \<and>
      map_sum id completed (fst (toggle_task tid s)) = map_sum id (\<lambda>t. \<not> completed t) (get_task tid s) \<and>
      snd (toggle_task tid (snd (toggle_task tid s))) = s) \<and>
   (tid \<notin> task_id ` set (tasks s) \<longrightarrow> toggle_task tid s = (Inl NotFoundError, s))"
proof (intro conjI impI)
  assume "tid \<notin> task_id ` set (tasks s)"
  then have "lookup_task tid (tasks s) = None" by (simp add: lookup_task_None)
  then show "toggle_task tid s = (Inl NotFoundError, s)"
    by (simp add: toggle_task_def)
next
  assume a: "tid \<in> task_id ` set (tasks s)"
  let ?f = "\<lambda>u::task. u\<lparr>completed := \<not> completed u\<rparr>"
  from a have "lookup_task tid (tasks s) \<noteq> None" by (simp add: lookup_task_None)
  then obtain t where l: "lookup_task tid (tasks s) = Some t" by blast
  have l2: "lookup_task tid (modify_first tid ?f (tasks s)) = Some (?f t)"
    using lookup_task_modify_first [of ?f tid "tasks s"] l by simp
  have m2: "modify_first tid ?f (modify_first tid ?f (tasks s)) = tasks s"
    by (rule modify_first_twice) simp_all
  from l show "isl (fst (toggle_task tid s)) = False" by (simp add: toggle_task_def)
  from l l2 show "fst (toggle_task tid (snd (toggle_task tid s))) = get_task tid s"
    by (simp add: toggle_task_def get_task_def)
  from l show "isl (get_task tid s) = False" by (simp add: get_task_def)
  from l show "map_sum id completed (fst (toggle_task tid s)) = map_sum id (\<lambda>t. \<not> completed t) (get_task tid s)"
    by (simp add: toggle_task_def get_task_def)
  from l l2 m2 show "snd (toggle_task tid (snd (toggle_task tid s))) = s"
    by (simp add: toggle_task_def)
qed

theorem toggle_task_involution_witness:
  "2 \<in> task_id ` set (tasks init_store) \<and>
   map completed (tasks (snd (toggle_task 2 init_store))) = [False, True, False] \<and>
   snd (toggle_task 2 (snd (toggle_task 2 init_store))) = init_store \<and>
   99 \<notin> task_id ` set (tasks init_store) \<and>
   toggle_task 99 init_store = (Inl NotFoundError, init_store)"
proof -
  have p: "2 \<in> task_id ` set (tasks init_store)" by (simp add: init_store_def)
  have q: "99 \<notin> task_id ` set (tasks init_store)" by (simp add: init_store_def)
  have m: "map completed (tasks (snd (toggle_task 2 init_store))) = [False, True, False]"
    by (simp add: init_store_def toggle_task_def lookup_task_def)
  from p q m toggle_task_involution [of 2 init_store] toggle_task_involution [of 99 init_store]
  show ?thesis by simp
qed

text \<open>
  C9. \<^verbatim>\<open>delete_task\<close> always succeeds. After it no task has the id; the other tasks
  stay, in their order, and the id counter is unchanged. A second call with the same
  id succeeds and changes nothing, as does any call with an id that no task has.
\<close>

theorem delete_task_idempotent:
  "fst (delete_task tid s) = Inr () \<and>
   tid \<notin> task_id ` set (tasks (snd (delete_task tid s))) \<and>
   set (tasks (snd (delete_task tid s))) = set (tasks s) - {t. task_id t = tid} \<and>
   subseq (tasks (snd (delete_task tid s))) (tasks s) \<and>
   next_task_id (snd (delete_task tid s)) = next_task_id s \<and>
   delete_task tid (snd (delete_task tid s)) = (Inr (), snd (delete_task tid s)) \<and>
   (tid \<notin> task_id ` set (tasks s) \<longrightarrow> delete_task tid s = (Inr (), s))"
proof -
  have "tid \<notin> task_id ` set (tasks s) \<Longrightarrow> filter (\<lambda>t. task_id t \<noteq> tid) (tasks s) = tasks s"
    by (rule filter_True) auto
  then have "tid \<notin> task_id ` set (tasks s) \<longrightarrow> delete_task tid s = (Inr (), s)"
    by (simp add: delete_task_def)
  moreover have "set (tasks (snd (delete_task tid s))) = set (tasks s) - {t. task_id t = tid}"
    by (auto simp: delete_task_def)
  ultimately show ?thesis
    by (auto simp: delete_task_def)
qed

theorem delete_task_idempotent_witness:
  "map task_id (tasks (snd (delete_task 2 init_store))) = [1, 3] \<and>
   delete_task 2 (snd (delete_task 2 init_store)) = (Inr (), snd (delete_task 2 init_store)) \<and>
   7 \<notin> task_id ` set (tasks init_store) \<and>
   delete_task 7 init_store = (Inr (), init_store)"
proof -
  have q: "7 \<notin> task_id ` set (tasks init_store)" by (simp add: init_store_def)
  have m: "map task_id (tasks (snd (delete_task 2 init_store))) = [1, 3]"
    by (simp add: init_store_def delete_task_def)
  from q m delete_task_idempotent [of 2 init_store] delete_task_idempotent [of 7 init_store]
  show ?thesis by simp
qed

text \<open>
  C10. When \<open>t\<close> is the first task with the id, \<^verbatim>\<open>toggle_task\<close> puts in its place
  the task with the same id, title and priority and the negated \<^verbatim>\<open>completed\<close> flag.
  The tasks before and after it, their order and the id counter are unchanged.
\<close>

theorem toggle_task_frame:
  "tasks s = pre @ t # post \<Longrightarrow> tid \<notin> task_id ` set pre \<Longrightarrow> task_id t = tid \<Longrightarrow>
   toggle_task tid s =
     (Inr \<lparr>task_id = task_id t, title = title t, completed = \<not> completed t, priority = priority t\<rparr>,
      s\<lparr>tasks := pre @ \<lparr>task_id = task_id t, title = title t, completed = \<not> completed t,
                         priority = priority t\<rparr> # post\<rparr>)"
proof -
  assume a: "tasks s = pre @ t # post" "tid \<notin> task_id ` set pre" "task_id t = tid"
  let ?f = "\<lambda>u::task. u\<lparr>completed := \<not> completed u\<rparr>"
  from a have l: "lookup_task tid (tasks s) = Some t" by (simp add: lookup_task_split)
  from a have m: "modify_first tid ?f (tasks s) = pre @ ?f t # post"
    by (simp add: modify_first_split)
  have f: "?f t = \<lparr>task_id = task_id t, title = title t, completed = \<not> completed t, priority = priority t\<rparr>"
    by simp
  from l m f show ?thesis by (simp add: toggle_task_def)
qed

theorem toggle_task_frame_witness:
  "toggle_task 2 init_store =
     (Inr \<lparr>task_id = 2, title = ''Build Flask App'', completed = True, priority = Some ''medium''\<rparr>,
      \<lparr>tasks =
         [\<lparr>task_id = 1, title = ''Learn HTMX'', completed = False, priority = Some ''high''\<rparr>,
          \<lparr>task_id = 2, title = ''Build Flask App'', completed = True, priority = Some ''medium''\<rparr>,
          \<lparr>task_id = 3, title = ''Deploy to Production'', completed = False, priority = Some ''low''\<rparr>],
       next_task_id = 4\<rparr>)"
  using toggle_task_frame [of init_store
        "[\<lparr>task_id = 1, title = ''Learn HTMX'', completed = False, priority = Some ''high''\<rparr>]"
        "\<lparr>task_id = 2, title = ''Build Flask App'', completed = False, priority = Some ''medium''\<rparr>"
        "[\<lparr>task_id = 3, title = ''Deploy to Production'', completed = False, priority = Some ''low''\<rparr>]"
        2]
  by (simp add: init_store_def)

end
